theory Spec2Isabelle
  imports Complex_Main
begin

section \<open>JavaScript values\<close>

text \<open>
  A JavaScript number is an IEEE double: a finite value, one of the two infinities, or NaN.
  Every finite double is a rational, and the two arithmetic operations of the handlers
  (\<open>Math.min\<close> and the multiplication by 8) are exact on doubles except for overflow, which
  is written out in \<open>times8\<close>.  Positive and negative zero are both \<open>Fin 0\<close>; the handlers
  never tell them apart (both are falsy).
\<close>

datatype jsnum = NaN | NegInf | Fin rat | PosInf

text \<open>
  The values that reach the server are parsed JSON.  A missing value (\<open>undefined\<close>) is
  \<open>None\<close> of \<open>json option\<close>; JSON cannot carry \<open>undefined\<close> inside an object.
\<close>

datatype json =
    JNull
  | JBool bool
  | JNum jsnum
  | JStr string
  | JArr "json list"
  | JObj "(string \<times> json) list"

datatype js_type = TUndefined | TObject | TBoolean | TNumber | TString

text \<open>The \<open>typeof\<close> operator.\<close>

fun typeof :: "json option \<Rightarrow> js_type" where
  "typeof None = TUndefined"
| "typeof (Some JNull) = TObject"
| "typeof (Some (JBool b)) = TBoolean"
| "typeof (Some (JNum n)) = TNumber"
| "typeof (Some (JStr s)) = TString"
| "typeof (Some (JArr xs)) = TObject"
| "typeof (Some (JObj fs)) = TObject"

text \<open>
  \<open>k in v\<close> and \<open>v.k\<close> for the property names the server uses (\<open>city\<close>, \<open>days\<close>,
  \<open>message\<close>), none of which is an own or inherited property of an array, a string, a
  number or a boolean.  Both are only evaluated on values that are neither \<open>undefined\<close>
  nor \<open>null\<close>.
\<close>

fun has_property :: "string \<Rightarrow> json option \<Rightarrow> bool" where
  "has_property k (Some (JObj fs)) = (map_of fs k \<noteq> None)"
| "has_property k v = False"

fun property :: "json option \<Rightarrow> string \<Rightarrow> json option" where
  "property (Some (JObj fs)) k = map_of fs k"
| "property v k = None"

section \<open>types.ts\<close>

record weather_item =
  description :: string

record OpenWeatherResponse =
  main_temp :: jsnum
  main_humidity :: jsnum
  weather :: "weather_item list"
  wind_speed :: jsnum
  dt_txt :: "string option"

record WeatherData =
  temperature :: jsnum
  conditions :: string
  humidity :: jsnum
  wind_speed_out :: jsnum
  timestamp :: string

record ForecastDay =
  date :: string
  day_temperature :: jsnum
  day_conditions :: string

text \<open>
  The type guard.  The conjunction of the source short-circuits; the properties are read
  only when the value is an object, where the total functions above agree with JavaScript.
\<close>

definition isValidForecastArgs :: "json option \<Rightarrow> bool" where
  "isValidForecastArgs args \<longleftrightarrow>
     typeof args = TObject \<and>
     args \<noteq> Some JNull \<and>
     has_property ''city'' args \<and>
     typeof (property args ''city'') = TString \<and>
     (property args ''days'' = None \<or> typeof (property args ''days'') = TNumber)"

section \<open>index.ts\<close>

datatype ErrorCode = InvalidRequest | MethodNotFound | InvalidParams | InternalError

text \<open>
  What can be thrown.  \<open>AxiosError r m\<close> has \<open>error.response\<close> undefined when \<open>r = None\<close>
  and \<open>error.response.data = d\<close> when \<open>r = Some d\<close>; \<open>m\<close> is \<open>error.message\<close>.
\<close>

datatype exn =
    McpError ErrorCode string
  | AxiosError "json option" string
  | TypeError
  | OtherError string

datatype 'a promise = Resolved 'a | Rejected exn

record request =
  url :: string
  appid :: string
  units :: string
  q :: string
  cnt :: "jsnum option"

text \<open>
  The surroundings of a handler: the configured key, the provider behind the axios
  instance (one function for each response type the source instantiates \<open>get\<close> at), the
  wall clock (\<open>clock k\<close> is \<open>new Date().toISOString()\<close> read in iteration \<open>k\<close> of the
  forecast loop, \<open>clock 0\<close> the one reading of the resource handler), and the conversion of
  a non-string value to a string by a template literal.
\<close>

record env =
  API_KEY :: string
  get_current :: "request \<Rightarrow> OpenWeatherResponse promise"
  get_forecast :: "request \<Rightarrow> OpenWeatherResponse list promise"
  clock :: "nat \<Rightarrow> string"
  to_string :: "json \<Rightarrow> string"

definition DEFAULT_CITY :: string where
  "DEFAULT_CITY = ''San Francisco''"

definition CURRENT :: string where
  "CURRENT = ''weather''"

definition FORECAST :: string where
  "FORECAST = ''forecast''"

definition resource_uri :: string where
  "resource_uri = ''weather://'' @ DEFAULT_CITY @ ''/current''"

record resource =
  uri :: string
  name :: string
  mimeType :: string
  resource_description :: string

definition list_resources :: "resource list \<times> request list" where
  "list_resources =
     ([\<lparr>uri = ''weather://'' @ DEFAULT_CITY @ ''/current'',
        name = ''Current weather in '' @ DEFAULT_CITY,
        mimeType = ''application/json'',
        resource_description =
          ''Real-time weather data including temperature, conditions, humidity, and wind speed''\<rparr>],
      [])"

text \<open>\<open>s.split(c)[0]\<close>: the part of \<open>s\<close> before the first \<open>c\<close>, all of \<open>s\<close> when there is none.\<close>

definition split_first :: "char \<Rightarrow> string \<Rightarrow> string" where
  "split_first c s = takeWhile (\<lambda>x. x \<noteq> c) s"

text \<open>\<open>error.response?.data.message\<close>: reading \<open>message\<close> of a \<open>null\<close> body throws.\<close>

fun response_message :: "json option \<Rightarrow> exn + json option" where
  "response_message None = Inr None"
| "response_message (Some JNull) = Inl TypeError"
| "response_message (Some d) = Inr (property (Some d) ''message'')"

text \<open>The template literal \<open>Weather API error: ${v ?? m}\<close>.\<close>

fun error_text :: "env \<Rightarrow> json option \<Rightarrow> string \<Rightarrow> string" where
  "error_text E None m = ''Weather API error: '' @ m"
| "error_text E (Some JNull) m = ''Weather API error: '' @ m"
| "error_text E (Some (JStr s)) m = ''Weather API error: '' @ s"
| "error_text E (Some v) m = ''Weather API error: '' @ to_string E v"

record resource_contents =
  contents_uri :: string
  contents_mimeType :: string
  contents_text :: WeatherData

text \<open>
  \<open>contents_text\<close> is the record handed to \<open>JSON.stringify\<close>; the rendering is not
  modelled.  The second component of a handler's result lists the HTTP requests issued.
\<close>

definition read_catch :: "env \<Rightarrow> exn \<Rightarrow> exn + resource_contents list" where
  "read_catch E error =
     (case error of
        AxiosError r m \<Rightarrow>
          (case response_message r of
             Inl e \<Rightarrow> Inl e
           | Inr v \<Rightarrow> Inl (McpError InternalError (error_text E v m)))
      | _ \<Rightarrow> Inl error)"

definition read_resource :: "env \<Rightarrow> string \<Rightarrow> (exn + resource_contents list) \<times> request list" where
  "read_resource E u =
     (let city = DEFAULT_CITY in
      if u \<noteq> ''weather://'' @ city @ ''/current''
      then (Inl (McpError InvalidRequest (''Unknown resource: '' @ u)), [])
      else
        let rq = \<lparr>url = CURRENT, appid = API_KEY E, units = ''metric'', q = city, cnt = None\<rparr> in
        (case get_current E rq of
           Rejected error \<Rightarrow> (read_catch E error, [rq])
         | Resolved d \<Rightarrow>
             (case weather d of
                [] \<Rightarrow> (read_catch E TypeError, [rq])
              | w # ws \<Rightarrow>
                  (Inr [\<lparr>contents_uri = u,
                         contents_mimeType = ''application/json'',
                         contents_text =
                           \<lparr>temperature = main_temp d,
                            conditions = description w,
                            humidity = main_humidity d,
                            wind_speed_out = wind_speed d,
                            timestamp = clock E 0\<rparr>\<rparr>],
                   [rq]))))"

text \<open>\<open>x || 3\<close> on an optional number: \<open>undefined\<close>, \<open>NaN\<close> and zero are falsy.\<close>

fun or_default :: "jsnum option \<Rightarrow> jsnum \<Rightarrow> jsnum" where
  "or_default None d = d"
| "or_default (Some NaN) d = d"
| "or_default (Some (Fin x)) d = (if x = 0 then d else Fin x)"
| "or_default (Some v) d = v"

fun Math_min :: "jsnum \<Rightarrow> jsnum \<Rightarrow> jsnum" where
  "Math_min NaN y = NaN"
| "Math_min x NaN = NaN"
| "Math_min NegInf y = NegInf"
| "Math_min x NegInf = NegInf"
| "Math_min PosInf y = y"
| "Math_min x PosInf = x"
| "Math_min (Fin a) (Fin b) = Fin (min a b)"

definition MAX_VALUE :: rat where
  "MAX_VALUE = (2 ^ 53 - 1) * 2 ^ 971"

text \<open>\<open>x * 8\<close>: exact on a double unless the product leaves the finite range.\<close>

fun times8 :: "jsnum \<Rightarrow> jsnum" where
  "times8 NaN = NaN"
| "times8 NegInf = NegInf"
| "times8 PosInf = PosInf"
| "times8 (Fin x) =
     (if x * 8 > MAX_VALUE then PosInf
      else if x * 8 < - MAX_VALUE then NegInf
      else Fin (x * 8))"

text \<open>The fields of validated arguments; the last cases are excluded by the type guard.\<close>

definition args_city :: "json option \<Rightarrow> string" where
  "args_city args = (case property args ''city'' of Some (JStr s) \<Rightarrow> s | _ \<Rightarrow> [])"

definition args_days :: "json option \<Rightarrow> jsnum option" where
  "args_days args = (case property args ''days'' of Some (JNum n) \<Rightarrow> Some n | _ \<Rightarrow> None)"

definition forecast_days :: "json option \<Rightarrow> jsnum" where
  "forecast_days args = Math_min (or_default (args_days args) (Fin 3)) (Fin 5)"

text \<open>
  The loop \<open>for (let i = 0; i < list.length; i += 8)\<close> with its accumulator \<open>forecasts\<close>.
  Reading \<open>description\<close> of \<open>weather[0]\<close> throws when \<open>weather\<close> is empty.
\<close>

function forecast_loop ::
  "env \<Rightarrow> OpenWeatherResponse list \<Rightarrow> nat \<Rightarrow> ForecastDay list \<Rightarrow> exn + ForecastDay list" where
  "forecast_loop E lst i forecasts =
     (if i < length lst then
        (let dayData = lst ! i in
         case weather dayData of
           [] \<Rightarrow> Inl TypeError
         | w # ws \<Rightarrow>
             forecast_loop E lst (i + 8)
               (forecasts @
                [\<lparr>date = (case dt_txt dayData of
                             Some t \<Rightarrow> split_first CHR '' '' t
                           | None \<Rightarrow> split_first CHR ''T'' (clock E (i div 8))),
                   day_temperature = main_temp dayData,
                   day_conditions = description w\<rparr>]))
      else Inr forecasts)"
  by pat_completeness auto
termination
  by (relation "measure (\<lambda>(E, lst, i, forecasts). length lst - i)") auto

datatype tool_text = Stringified "ForecastDay list" | Plain string

record tool_result =
  content :: "tool_text list"
  isError :: bool

text \<open>
  \<open>Stringified fs\<close> is the text \<open>JSON.stringify(fs, null, 2)\<close>; the rendering is not
  modelled.  \<open>isError\<close> is \<open>False\<close> where the source leaves the field out.
\<close>

definition tool_catch :: "env \<Rightarrow> exn \<Rightarrow> exn + tool_result" where
  "tool_catch E error =
     (case error of
        AxiosError r m \<Rightarrow>
          (case response_message r of
             Inl e \<Rightarrow> Inl e
           | Inr v \<Rightarrow> Inr \<lparr>content = [Plain (error_text E v m)], isError = True\<rparr>)
      | _ \<Rightarrow> Inl error)"

definition call_tool :: "env \<Rightarrow> string \<Rightarrow> json option \<Rightarrow> (exn + tool_result) \<times> request list" where
  "call_tool E tool args =
     (if tool \<noteq> ''get_forecast''
      then (Inl (McpError MethodNotFound (''Unknown tool: '' @ tool)), [])
      else if \<not> isValidForecastArgs args
      then (Inl (McpError InvalidParams ''Invalid forecast arguments''), [])
      else
        let city = args_city args;
            days = forecast_days args;
            rq = \<lparr>url = FORECAST, appid = API_KEY E, units = ''metric'', q = city,
                  cnt = Some (times8 days)\<rparr>
        in
        (case get_forecast E rq of
           Rejected error \<Rightarrow> (tool_catch E error, [rq])
         | Resolved lst \<Rightarrow>
             (case forecast_loop E lst 0 [] of
                Inl error \<Rightarrow> (tool_catch E error, [rq])
              | Inr forecasts \<Rightarrow>
                  (Inr \<lparr>content = [Stringified forecasts], isError = False\<rparr>, [rq]))))"


declare forecast_loop.simps [simp del]

section \<open>The specification's wording\<close>

text \<open>
  The shape of a ForecastRequest in the words of the specification: a non-null structured
  value with a \<open>city\<close> field holding a string and a \<open>days\<close> field that is absent or
  numeric.
\<close>

definition conforms_ForecastRequest :: "json option \<Rightarrow> bool" where
  "conforms_ForecastRequest args =
     (case args of
        Some (JObj fs) \<Rightarrow>
          (case map_of fs ''city'' of
             Some (JStr s) \<Rightarrow>
               (case map_of fs ''days'' of
                  None \<Rightarrow> True
                | Some (JNum n) \<Rightarrow> True
                | Some other \<Rightarrow> False)
           | other \<Rightarrow> False)
      | other \<Rightarrow> False)"

text \<open>
  The day count in the words of the specification: the \<open>days\<close> value clamped to the
  interval from 1 to 5, and 3 when \<open>days\<close> is absent.
\<close>

fun spec_clamped_days :: "jsnum option \<Rightarrow> jsnum" where
  "spec_clamped_days None = Fin 3"
| "spec_clamped_days (Some NaN) = NaN"
| "spec_clamped_days (Some NegInf) = Fin 1"
| "spec_clamped_days (Some PosInf) = Fin 5"
| "spec_clamped_days (Some (Fin x)) = Fin (max 1 (min x 5))"

text \<open>
  The day count as a case table: \<open>days\<close> capped at 5 with no lower bound, and 3 when
  \<open>days\<close> is absent, zero or NaN.
\<close>

fun capped_days :: "jsnum option \<Rightarrow> jsnum" where
  "capped_days None = Fin 3"
| "capped_days (Some NaN) = Fin 3"
| "capped_days (Some NegInf) = NegInf"
| "capped_days (Some PosInf) = Fin 5"
| "capped_days (Some (Fin x)) = (if x = 0 then Fin 3 else if 5 < x then Fin 5 else Fin x)"

text \<open>
  The record the forecast loop pushes in iteration \<open>k\<close>, read off the list entry at
  index \<open>8 * k\<close>.  It is used only for entries whose \<open>weather\<close> list is not empty; on
  an empty list the loop throws.
\<close>

definition sampled_day :: "env \<Rightarrow> OpenWeatherResponse list \<Rightarrow> nat \<Rightarrow> ForecastDay" where
  "sampled_day E lst k =
     \<lparr>date = (case dt_txt (lst ! (8 * k)) of
                Some t \<Rightarrow> split_first CHR '' '' t
              | None \<Rightarrow> split_first CHR ''T'' (clock E k)),
      day_temperature = main_temp (lst ! (8 * k)),
      day_conditions = description (hd (weather (lst ! (8 * k))))\<rparr>"

section \<open>Concrete surroundings\<close>

definition slot :: "string option \<Rightarrow> rat \<Rightarrow> string \<Rightarrow> OpenWeatherResponse" where
  "slot t c d =
     \<lparr>main_temp = Fin c, main_humidity = Fin 60, weather = [\<lparr>description = d\<rparr>],
      wind_speed = Fin (13 / 4), dt_txt = t\<rparr>"

definition two_days :: "OpenWeatherResponse list" where
  "two_days =
     replicate 8 (slot (Some ''2024-05-01 00:00:00'') (43 / 2) ''clear sky'') @
     replicate 8 (slot (Some ''2024-05-02 00:00:00'') 18 ''light rain'')"

definition undated_days :: "OpenWeatherResponse list" where
  "undated_days =
     replicate 8 (slot None (43 / 2) ''clear sky'') @
     replicate 8 (slot None 18 ''light rain'')"

definition unauthorized :: exn where
  "unauthorized =
     AxiosError
       (Some (JObj [(''cod'', JNum (Fin 401)), (''message'', JStr ''Invalid API key'')]))
       ''Request failed with status code 401''"

definition null_body :: exn where
  "null_body = AxiosError (Some JNull) ''Request failed with status code 500''"

definition provider_up :: env where
  "provider_up =
     \<lparr>API_KEY = ''key'',
      get_current = (\<lambda>rq. Resolved (slot None (43 / 2) ''clear sky'')),
      get_forecast = (\<lambda>rq. Resolved two_days),
      clock = (\<lambda>k. ''2024-05-01T09:30:00.000Z''),
      to_string = (\<lambda>v. [])\<rparr>"

definition provider_undated :: env where
  "provider_undated = provider_up\<lparr>get_forecast := (\<lambda>rq. Resolved undated_days)\<rparr>"

definition provider_refusing :: env where
  "provider_refusing =
     provider_up\<lparr>get_current := (\<lambda>rq. Rejected unauthorized),
                 get_forecast := (\<lambda>rq. Rejected unauthorized)\<rparr>"

definition provider_null_body :: env where
  "provider_null_body =
     provider_up\<lparr>get_current := (\<lambda>rq. Rejected null_body),
                 get_forecast := (\<lambda>rq. Rejected null_body)\<rparr>"

definition twenty_slots :: "OpenWeatherResponse list" where
  "twenty_slots = two_days @ replicate 4 (slot None 12 ''mist'')"

definition provider_twenty :: env where
  "provider_twenty = provider_up\<lparr>get_forecast := (\<lambda>rq. Resolved twenty_slots)\<rparr>"

definition london :: "jsnum option \<Rightarrow> json option" where
  "london d =
     Some (JObj ((''city'', JStr ''London'') #
                 (case d of None \<Rightarrow> [] | Some n \<Rightarrow> [(''days'', JNum n)])))"

section \<open>The forecast loop\<close>

lemma forecast_loop_sampled:
  "(\<forall>k. j \<le> k \<and> 8 * k < length lst \<longrightarrow> weather (lst ! (8 * k)) \<noteq> []) \<Longrightarrow> i = 8 * j \<Longrightarrow>
   forecast_loop E lst i acc = Inr (acc @ map (sampled_day E lst) [j ..< (length lst + 7) div 8])"
proof (induction E lst i acc arbitrary: j rule: forecast_loop.induct)
  case (1 E lst i forecasts)
  show ?case
  proof (cases "i < length lst")
    case False
    with 1(3) have "(length lst + 7) div 8 \<le> j" by simp
    with False show ?thesis by (subst forecast_loop.simps) simp
  next
    case True
    with 1(3) have jlt: "j < (length lst + 7) div 8" by simp
    from True 1(2,3) have ne: "weather (lst ! i) \<noteq> []" by simp
    then obtain w ws where w: "weather (lst ! i) = w # ws" by (cases "weather (lst ! i)") auto
    have step: "i + 8 = 8 * Suc j" using 1(3) by simp
    have all: "\<forall>k. Suc j \<le> k \<and> 8 * k < length lst \<longrightarrow> weather (lst ! (8 * k)) \<noteq> []"
      using 1(2) by simp
    have entry: "\<lparr>date = (case dt_txt (lst ! i) of
                             Some t \<Rightarrow> split_first CHR '' '' t
                           | None \<Rightarrow> split_first CHR ''T'' (clock E (i div 8))),
                   day_temperature = main_temp (lst ! i),
                   day_conditions = description w\<rparr> = sampled_day E lst j"
      using w 1(3) by (simp add: sampled_day_def split: option.split)
    have ih: "forecast_loop E lst (i + 8) (forecasts @ [sampled_day E lst j]) =
          Inr ((forecasts @ [sampled_day E lst j]) @
               map (sampled_day E lst) [Suc j ..< (length lst + 7) div 8])"
      using 1(1)[OF True refl w all step] unfolding entry .
    have "forecast_loop E lst i forecasts =
          forecast_loop E lst (i + 8) (forecasts @ [sampled_day E lst j])"
      using True w entry by (subst forecast_loop.simps) simp
    with ih jlt show ?thesis by (simp add: upt_conv_Cons)
  qed
qed

lemma forecast_loop_throws:
  "8 * k < length lst \<Longrightarrow> weather (lst ! (8 * k)) = [] \<Longrightarrow> i = 8 * j \<Longrightarrow> j \<le> k \<Longrightarrow>
   forecast_loop E lst i acc = Inl TypeError"
proof (induction E lst i acc arbitrary: j rule: forecast_loop.induct)
  case (1 E lst i forecasts)
  from 1(2,4,5) have ilt: "i < length lst" by simp
  show ?case
  proof (cases "weather (lst ! i)")
    case Nil
    with ilt show ?thesis by (subst forecast_loop.simps) simp
  next
    case (Cons w ws)
    with 1(3,4,5) have "j \<noteq> k" by auto
    with 1(5) have sj: "Suc j \<le> k" by simp
    have step: "i + 8 = 8 * Suc j" using 1(4) by simp
    have "forecast_loop E lst (i + 8) (forecasts @
                [\<lparr>date = (case dt_txt (lst ! i) of
                             Some t \<Rightarrow> split_first CHR '' '' t
                           | None \<Rightarrow> split_first CHR ''T'' (clock E (i div 8))),
                   day_temperature = main_temp (lst ! i),
                   day_conditions = description w\<rparr>]) = Inl TypeError"
      using 1(1)[OF ilt refl Cons 1(2) 1(3) step sj] .
    with ilt Cons show ?thesis by (subst forecast_loop.simps) simp
  qed
qed

section \<open>The argument validator\<close>

lemma typeof_TString: "typeof v = TString \<Longrightarrow> \<exists>s. v = Some (JStr s)"
  by (erule typeof.elims) simp_all

lemma typeof_TNumber: "typeof v = TNumber \<Longrightarrow> \<exists>n. v = Some (JNum n)"
  by (erule typeof.elims) simp_all

lemma has_property_object: "has_property k v \<Longrightarrow> \<exists>fs. v = Some (JObj fs)"
  by (erule has_property.elims) simp_all

lemma valid_shape:
  assumes "isValidForecastArgs args"
  shows "\<exists>fs s. args = Some (JObj fs) \<and> map_of fs ''city'' = Some (JStr s) \<and>
           (map_of fs ''days'' = None \<or> (\<exists>n. map_of fs ''days'' = Some (JNum n)))"
proof -
  from assms obtain fs where fs: "args = Some (JObj fs)"
    unfolding isValidForecastArgs_def using has_property_object by blast
  from assms fs have "typeof (map_of fs ''city'') = TString"
    unfolding isValidForecastArgs_def by simp
  then obtain s where s: "map_of fs ''city'' = Some (JStr s)"
    using typeof_TString by blast
  from assms fs have "map_of fs ''days'' = None \<or> typeof (map_of fs ''days'') = TNumber"
    unfolding isValidForecastArgs_def by simp
  then have "map_of fs ''days'' = None \<or> (\<exists>n. map_of fs ''days'' = Some (JNum n))"
    using typeof_TNumber by blast
  with fs s show ?thesis by blast
qed

lemma isValid_conforms: "isValidForecastArgs args = conforms_ForecastRequest args"
proof (cases args)
  case None
  then show ?thesis by (simp add: isValidForecastArgs_def conforms_ForecastRequest_def)
next
  case (Some v)
  show ?thesis
  proof (cases v)
    case (JObj fs)
    show ?thesis
    proof (cases "map_of fs ''city''")
      case None
      with Some JObj show ?thesis
        by (simp add: isValidForecastArgs_def conforms_ForecastRequest_def)
    next
      case city: (Some c)
      show ?thesis
      proof (cases "map_of fs ''days''")
        case None
        with Some JObj city show ?thesis
          by (cases c) (simp_all add: isValidForecastArgs_def conforms_ForecastRequest_def)
      next
        case days: (Some d)
        with Some JObj city show ?thesis
          by (cases c; cases d) (simp_all add: isValidForecastArgs_def conforms_ForecastRequest_def)
      qed
    qed
  qed (simp_all add: Some isValidForecastArgs_def conforms_ForecastRequest_def)
qed

section \<open>The tool handler\<close>

lemma call_tool_valid:
  assumes "isValidForecastArgs args"
  shows "call_tool E ''get_forecast'' args =
     (case get_forecast E \<lparr>url = ''forecast'', appid = API_KEY E, units = ''metric'',
                             q = args_city args, cnt = Some (times8 (forecast_days args))\<rparr> of
        Rejected error \<Rightarrow>
          (tool_catch E error,
           [\<lparr>url = ''forecast'', appid = API_KEY E, units = ''metric'',
              q = args_city args, cnt = Some (times8 (forecast_days args))\<rparr>])
      | Resolved lst \<Rightarrow>
          (case forecast_loop E lst 0 [] of
             Inl error \<Rightarrow>
               (tool_catch E error,
                [\<lparr>url = ''forecast'', appid = API_KEY E, units = ''metric'',
                   q = args_city args, cnt = Some (times8 (forecast_days args))\<rparr>])
           | Inr forecasts \<Rightarrow>
               (Inr \<lparr>content = [Stringified forecasts], isError = False\<rparr>,
                [\<lparr>url = ''forecast'', appid = API_KEY E, units = ''metric'',
                   q = args_city args, cnt = Some (times8 (forecast_days args))\<rparr>])))"
  using assms by (simp add: call_tool_def FORECAST_def Let_def)

lemma call_tool_requests:
  assumes "isValidForecastArgs args"
  shows "snd (call_tool E ''get_forecast'' args) =
           [\<lparr>url = ''forecast'', appid = API_KEY E, units = ''metric'',
              q = args_city args, cnt = Some (times8 (forecast_days args))\<rparr>]"
  unfolding call_tool_valid[OF assms]
  by (simp split: promise.split sum.split)

lemma call_tool_resolved:
  assumes "isValidForecastArgs args"
    and "get_forecast E \<lparr>url = ''forecast'', appid = API_KEY E, units = ''metric'',
                           q = args_city args, cnt = Some (times8 (forecast_days args))\<rparr> = Resolved lst"
    and "\<forall>k. 8 * k < length lst \<longrightarrow> weather (lst ! (8 * k)) \<noteq> []"
  shows "fst (call_tool E ''get_forecast'' args) =
           Inr \<lparr>content = [Stringified (map (sampled_day E lst) [0 ..< (length lst + 7) div 8])],
                isError = False\<rparr>"
proof -
  have "forecast_loop E lst 0 [] = Inr ([] @ map (sampled_day E lst) [0 ..< (length lst + 7) div 8])"
    by (rule forecast_loop_sampled[where j = 0]) (use assms(3) in simp_all)
  then show ?thesis
    unfolding call_tool_valid[OF assms(1)] assms(2) by simp
qed

lemma forecast_days_capped: "Math_min (or_default d (Fin 3)) (Fin 5) = capped_days d"
proof (cases d)
  case None
  then show ?thesis by simp
next
  case (Some n)
  then show ?thesis by (cases n) (simp_all add: min_def)
qed

lemma capped_days_from_one: "1 \<le> x \<Longrightarrow> capped_days (Some (Fin x)) = spec_clamped_days (Some (Fin x))"
  by (simp add: min_def max_def)

lemma call_tool_empty_weather:
  assumes "isValidForecastArgs args"
    and "get_forecast E \<lparr>url = ''forecast'', appid = API_KEY E, units = ''metric'',
                           q = args_city args, cnt = Some (times8 (forecast_days args))\<rparr> =
         Resolved lst"
    and "8 * k < length lst" and "weather (lst ! (8 * k)) = []"
  shows "fst (call_tool E ''get_forecast'' args) = Inl TypeError"
proof -
  have "forecast_loop E lst 0 [] = Inl TypeError"
    by (rule forecast_loop_throws [where j = 0 and k = k]) (use assms(3,4) in simp_all)
  then show ?thesis
    unfolding call_tool_valid [OF assms(1)] assms(2) by (simp add: tool_catch_def)
qed

lemma ceiling_eighth: "\<lceil>real n / 8\<rceil> = int ((n + 7) div 8)"
proof (rule ceiling_unique)
  have a: "8 * ((n + 7) div 8) + (n + 7) mod 8 = n + 7" by simp
  have b: "(n + 7) mod 8 < 8" by simp
  from a b have lo: "8 * ((n + 7) div 8) < n + 8" and hi: "n \<le> 8 * ((n + 7) div 8)" by linarith+
  from lo have "real (8 * ((n + 7) div 8)) < real (n + 8)" by (simp only: of_nat_less_iff)
  then show "real_of_int (int ((n + 7) div 8)) - 1 < real n / 8" by simp
  from hi have "real n \<le> real (8 * ((n + 7) div 8))" by (simp only: of_nat_le_iff)
  then show "real n / 8 \<le> real_of_int (int ((n + 7) div 8))" by simp
qed

section \<open>The catch blocks\<close>

lemma response_message_not_null:
  "r \<noteq> Some JNull \<Longrightarrow> response_message r = Inr (property r ''message'')"
  by (cases r rule: response_message.cases) simp_all

lemma error_text_structured:
  "map_of fs ''message'' = Some (JStr s) \<Longrightarrow>
   error_text E (property (Some (JObj fs)) ''message'') m = ''Weather API error: '' @ s"
  by simp

lemma error_text_transport:
  "error_text E (property None ''message'') m = ''Weather API error: '' @ m"
  by simp

lemma provider_error_read:
  assumes "get_current E \<lparr>url = ''weather'', appid = API_KEY E, units = ''metric'',
                           q = ''San Francisco'', cnt = None\<rparr> = Rejected (AxiosError r m)"
    and "r \<noteq> Some JNull"
  shows "fst (read_resource E ''weather://San Francisco/current'') =
           Inl (McpError InternalError (error_text E (property r ''message'') m))"
  using assms
  by (simp add: read_resource_def DEFAULT_CITY_def CURRENT_def read_catch_def
      response_message_not_null)

lemma provider_error_tool:
  assumes "isValidForecastArgs args"
    and "get_forecast E \<lparr>url = ''forecast'', appid = API_KEY E, units = ''metric'',
                           q = args_city args, cnt = Some (times8 (forecast_days args))\<rparr> =
         Rejected (AxiosError r m)"
    and "r \<noteq> Some JNull"
  shows "fst (call_tool E ''get_forecast'' args) =
           Inr \<lparr>content = [Plain (error_text E (property r ''message'') m)], isError = True\<rparr>"
  unfolding call_tool_valid [OF assms(1)] assms(2)
  using assms(3) by (simp add: tool_catch_def response_message_not_null)

section \<open>The concrete surroundings\<close>

lemma two_days_nth:
  "two_days ! 0 = slot (Some ''2024-05-01 00:00:00'') (43 / 2) ''clear sky''"
  "two_days ! 8 = slot (Some ''2024-05-02 00:00:00'') 18 ''light rain''"
  by (simp_all add: two_days_def nth_append)

lemma undated_days_nth:
  "undated_days ! 0 = slot None (43 / 2) ''clear sky''"
  "undated_days ! 8 = slot None 18 ''light rain''"
  by (simp_all add: undated_days_def nth_append)

lemma london_valid: "isValidForecastArgs (london d)"
  by (cases d) (simp_all add: london_def isValidForecastArgs_def)

lemma twenty_slots_nth:
  "k < 3 \<Longrightarrow> twenty_slots ! (8 * k) =
     [slot (Some ''2024-05-01 00:00:00'') (43 / 2) ''clear sky'',
      slot (Some ''2024-05-02 00:00:00'') 18 ''light rain'',
      slot None 12 ''mist''] ! k"
  by (auto simp add: less_Suc_eq numeral_3_eq_3 twenty_slots_def two_days_def nth_append)

lemma refused_provider_paths:
  "fst (read_resource provider_refusing ''weather://San Francisco/current'') =
     Inl (McpError InternalError ''Weather API error: Invalid API key'') \<and>
   fst (call_tool provider_refusing ''get_forecast'' (london None)) =
     Inr \<lparr>content = [Plain ''Weather API error: Invalid API key''], isError = True\<rparr>"
proof -
  have r: "get_current provider_refusing
             \<lparr>url = ''weather'', appid = API_KEY provider_refusing, units = ''metric'',
                q = ''San Francisco'', cnt = None\<rparr> =
           Rejected (AxiosError
             (Some (JObj [(''cod'', JNum (Fin 401)), (''message'', JStr ''Invalid API key'')]))
             ''Request failed with status code 401'')"
    by (simp add: provider_refusing_def unauthorized_def)
  have t: "get_forecast provider_refusing
             \<lparr>url = ''forecast'', appid = API_KEY provider_refusing, units = ''metric'',
                q = args_city (london None),
                cnt = Some (times8 (forecast_days (london None)))\<rparr> =
           Rejected (AxiosError
             (Some (JObj [(''cod'', JNum (Fin 401)), (''message'', JStr ''Invalid API key'')]))
             ''Request failed with status code 401'')"
    by (simp add: provider_refusing_def unauthorized_def)
  from provider_error_read [OF r] provider_error_tool [OF london_valid t]
  show ?thesis by simp
qed

section \<open>Claims about the resource handler\<close>

text \<open>
  C5: list-resources advertises the single URI \<open>weather://San Francisco/current\<close> and
  issues no request; for every URI that is not the advertised one, read-resource throws
  an invalid-request error naming the unknown resource and issues no request.
\<close>

theorem read_resource_unknown_uri:
  assumes "u \<notin> uri ` set (fst list_resources)"
  shows "map uri (fst list_resources) = [''weather://San Francisco/current''] \<and>
         snd list_resources = [] \<and>
         read_resource E u = (Inl (McpError InvalidRequest (''Unknown resource: '' @ u)), [])"
  using assms by (simp add: list_resources_def read_resource_def DEFAULT_CITY_def)

theorem read_resource_unknown_uri_witness:
  "''weather://Paris/current'' \<notin> uri ` set (fst list_resources) \<and>
   read_resource provider_up ''weather://Paris/current'' =
     (Inl (McpError InvalidRequest ''Unknown resource: weather://Paris/current''), [])"
proof -
  have h: "''weather://Paris/current'' \<notin> uri ` set (fst list_resources)"
    by (simp add: list_resources_def DEFAULT_CITY_def)
  from h read_resource_unknown_uri [OF h, of provider_up] show ?thesis by simp
qed

text \<open>
  C7: when the provider answers the current-weather request with a payload whose
  \<open>weather\<close> list is not empty, read-resource returns one snapshot with the payload's
  \<open>main.temp\<close>, the description of \<open>weather[0]\<close>, \<open>main.humidity\<close> and \<open>wind.speed\<close>,
  and with the timestamp read from the wall clock, not from the payload.
\<close>

theorem read_resource_snapshot:
  assumes "get_current E \<lparr>url = ''weather'', appid = API_KEY E, units = ''metric'',
                           q = ''San Francisco'', cnt = None\<rparr> = Resolved d"
    and "weather d = w # ws"
  shows "read_resource E ''weather://San Francisco/current'' =
           (Inr [\<lparr>contents_uri = ''weather://San Francisco/current'',
                   contents_mimeType = ''application/json'',
                   contents_text =
                     \<lparr>temperature = main_temp d,
                      conditions = description w,
                      humidity = main_humidity d,
                      wind_speed_out = wind_speed d,
                      timestamp = clock E 0\<rparr>\<rparr>],
            [\<lparr>url = ''weather'', appid = API_KEY E, units = ''metric'',
               q = ''San Francisco'', cnt = None\<rparr>])"
  using assms by (simp add: read_resource_def DEFAULT_CITY_def CURRENT_def)

theorem read_resource_snapshot_witness:
  "read_resource provider_up ''weather://San Francisco/current'' =
     (Inr [\<lparr>contents_uri = ''weather://San Francisco/current'',
             contents_mimeType = ''application/json'',
             contents_text =
               \<lparr>temperature = Fin (43 / 2),
                conditions = ''clear sky'',
                humidity = Fin 60,
                wind_speed_out = Fin (13 / 4),
                timestamp = ''2024-05-01T09:30:00.000Z''\<rparr>\<rparr>],
      [\<lparr>url = ''weather'', appid = ''key'', units = ''metric'',
         q = ''San Francisco'', cnt = None\<rparr>])"
proof -
  have g: "get_current provider_up
             \<lparr>url = ''weather'', appid = API_KEY provider_up, units = ''metric'',
                q = ''San Francisco'', cnt = None\<rparr> =
           Resolved (slot None (43 / 2) ''clear sky'')"
    by (simp add: provider_up_def)
  have w: "weather (slot None (43 / 2) ''clear sky'') = \<lparr>description = ''clear sky''\<rparr> # []"
    by (simp add: slot_def)
  from read_resource_snapshot [OF g w] show ?thesis
    by (simp add: slot_def provider_up_def)
qed

section \<open>Claims about the validation gate\<close>

text \<open>
  C4: for every arguments value that does not have the shape of a ForecastRequest,
  call-tool of \<open>get_forecast\<close> throws invalid-params and issues no request (a numeric string
  for \<open>days\<close> is such a value); for every value of that shape the type guard passes,
  exactly one forecast request is issued, and the answer of the handler is the outcome of
  that provider call: the forecast built from the resolved list, or what the catch block
  makes of the failure.
\<close>

theorem get_forecast_validation_gate:
  "(\<not> conforms_ForecastRequest args \<longrightarrow>
      call_tool E ''get_forecast'' args =
        (Inl (McpError InvalidParams ''Invalid forecast arguments''), [])) \<and>
   (conforms_ForecastRequest args \<longrightarrow>
      isValidForecastArgs args \<and>
      call_tool E ''get_forecast'' args =
        (case get_forecast E \<lparr>url = ''forecast'', appid = API_KEY E, units = ''metric'',
                                q = args_city args,
                                cnt = Some (times8 (forecast_days args))\<rparr> of
           Rejected error \<Rightarrow>
             (tool_catch E error,
              [\<lparr>url = ''forecast'', appid = API_KEY E, units = ''metric'',
                 q = args_city args, cnt = Some (times8 (forecast_days args))\<rparr>])
         | Resolved lst \<Rightarrow>
             (case forecast_loop E lst 0 [] of
                Inl error \<Rightarrow>
                  (tool_catch E error,
                   [\<lparr>url = ''forecast'', appid = API_KEY E, units = ''metric'',
                      q = args_city args, cnt = Some (times8 (forecast_days args))\<rparr>])
              | Inr forecasts \<Rightarrow>
                  (Inr \<lparr>content = [Stringified forecasts], isError = False\<rparr>,
                   [\<lparr>url = ''forecast'', appid = API_KEY E, units = ''metric'',
                      q = args_city args, cnt = Some (times8 (forecast_days args))\<rparr>]))))"
proof (cases "conforms_ForecastRequest args")
  case True
  then have v: "isValidForecastArgs args" by (simp add: isValid_conforms)
  from True v call_tool_valid [OF v, of E] show ?thesis by simp
next
  case False
  then have "\<not> isValidForecastArgs args" by (simp add: isValid_conforms)
  with False show ?thesis by (simp add: call_tool_def)
qed

theorem get_forecast_validation_gate_witness:
  "\<not> conforms_ForecastRequest (Some (JObj [(''city'', JStr ''Oslo''), (''days'', JStr ''3'')])) \<and>
   call_tool provider_up ''get_forecast''
     (Some (JObj [(''city'', JStr ''Oslo''), (''days'', JStr ''3'')])) =
     (Inl (McpError InvalidParams ''Invalid forecast arguments''), []) \<and>
   conforms_ForecastRequest (london (Some (Fin 2))) \<and>
   call_tool provider_up ''get_forecast'' (london (Some (Fin 2))) =
     (Inr \<lparr>content =
             [Stringified
                [\<lparr>date = ''2024-05-01'', day_temperature = Fin (43 / 2),
                   day_conditions = ''clear sky''\<rparr>,
                 \<lparr>date = ''2024-05-02'', day_temperature = Fin 18,
                   day_conditions = ''light rain''\<rparr>]],
           isError = False\<rparr>,
      [\<lparr>url = ''forecast'', appid = ''key'', units = ''metric'', q = ''London'',
         cnt = Some (Fin 16)\<rparr>])"
proof -
  have no: "\<not> conforms_ForecastRequest
              (Some (JObj [(''city'', JStr ''Oslo''), (''days'', JStr ''3'')]))"
    by (simp add: conforms_ForecastRequest_def)
  have yes: "conforms_ForecastRequest (london (Some (Fin 2)))"
    by (simp add: london_def conforms_ForecastRequest_def)
  have city: "args_city (london (Some (Fin 2))) = ''London''"
    by (simp add: london_def args_city_def)
  have days: "times8 (forecast_days (london (Some (Fin 2)))) = Fin 16"
    by (simp add: london_def args_days_def forecast_days_def MAX_VALUE_def)
  have key: "API_KEY provider_up = ''key''"
    by (simp add: provider_up_def)
  have g: "get_forecast provider_up
             \<lparr>url = ''forecast'', appid = ''key'', units = ''metric'', q = ''London'',
                cnt = Some (Fin 16)\<rparr> = Resolved two_days"
    by (simp add: provider_up_def)
  have len: "length two_days = 16"
    by (simp add: two_days_def)
  have ne: "\<forall>k. 0 \<le> k \<and> 8 * k < length two_days \<longrightarrow> weather (two_days ! (8 * k)) \<noteq> []"
  proof (intro allI impI)
    fix k assume "0 \<le> k \<and> 8 * k < length two_days"
    with len have "k = 0 \<or> k = 1" by auto
    then show "weather (two_days ! (8 * k)) \<noteq> []"
      by (auto simp add: two_days_nth slot_def)
  qed
  have up: "[0 ..< 2] = [0, Suc 0]"
    by (simp add: upt_rec)
  have clk: "clock provider_up = (\<lambda>k. ''2024-05-01T09:30:00.000Z'')"
    by (simp add: provider_up_def)
  have "forecast_loop provider_up two_days 0 [] =
          Inr ([] @ map (sampled_day provider_up two_days) [0 ..< (length two_days + 7) div 8])"
    by (rule forecast_loop_sampled [where j = 0]) (use ne in simp_all)
  then have loop: "forecast_loop provider_up two_days 0 [] =
          Inr [\<lparr>date = ''2024-05-01'', day_temperature = Fin (43 / 2),
                 day_conditions = ''clear sky''\<rparr>,
               \<lparr>date = ''2024-05-02'', day_temperature = Fin 18,
                 day_conditions = ''light rain''\<rparr>]"
    by (simp add: len up sampled_day_def two_days_nth slot_def split_first_def)
  from no
    get_forecast_validation_gate
      [of "Some (JObj [(''city'', JStr ''Oslo''), (''days'', JStr ''3'')])" provider_up]
  have rejected: "call_tool provider_up ''get_forecast''
     (Some (JObj [(''city'', JStr ''Oslo''), (''days'', JStr ''3'')])) =
     (Inl (McpError InvalidParams ''Invalid forecast arguments''), [])"
    by simp
  from yes get_forecast_validation_gate [of "london (Some (Fin 2))" provider_up]
  have accepted: "call_tool provider_up ''get_forecast'' (london (Some (Fin 2))) =
     (Inr \<lparr>content =
             [Stringified
                [\<lparr>date = ''2024-05-01'', day_temperature = Fin (43 / 2),
                   day_conditions = ''clear sky''\<rparr>,
                 \<lparr>date = ''2024-05-02'', day_temperature = Fin 18,
                   day_conditions = ''light rain''\<rparr>]],
           isError = False\<rparr>,
      [\<lparr>url = ''forecast'', appid = ''key'', units = ''metric'', q = ''London'',
         cnt = Some (Fin 16)\<rparr>])"
    by (simp add: city days key g loop)
  from no yes rejected accepted show ?thesis by simp
qed

text \<open>
  C8, as stated: every accepted arguments value has a non-empty \<open>city\<close>, and an empty
  \<open>city\<close> is rejected with invalid-params before any request.  The type guard only asks
  for a string: the object \<open>{city: ""}\<close> is accepted and a forecast request with an empty
  \<open>q\<close> is issued.
\<close>

theorem empty_city_counterexample:
  "isValidForecastArgs (Some (JObj [(''city'', JStr [])])) \<and>
   property (Some (JObj [(''city'', JStr [])])) ''city'' = Some (JStr []) \<and>
   call_tool provider_up ''get_forecast'' (Some (JObj [(''city'', JStr [])])) \<noteq>
     (Inl (McpError InvalidParams ''Invalid forecast arguments''), []) \<and>
   snd (call_tool provider_up ''get_forecast'' (Some (JObj [(''city'', JStr [])]))) =
     [\<lparr>url = ''forecast'', appid = ''key'', units = ''metric'', q = [],
        cnt = Some (Fin 24)\<rparr>]"
proof -
  have v: "isValidForecastArgs (Some (JObj [(''city'', JStr [])]))"
    by (simp add: isValidForecastArgs_def)
  have city: "args_city (Some (JObj [(''city'', JStr [])])) = []"
    by (simp add: args_city_def)
  have d: "args_days (Some (JObj [(''city'', JStr [])])) = None"
    by (simp add: args_days_def)
  have key: "API_KEY provider_up = ''key''"
    by (simp add: provider_up_def)
  have r: "snd (call_tool provider_up ''get_forecast'' (Some (JObj [(''city'', JStr [])]))) =
     [\<lparr>url = ''forecast'', appid = ''key'', units = ''metric'', q = [],
        cnt = Some (Fin 24)\<rparr>]"
    by (simp add: call_tool_requests [OF v] city forecast_days_def d key MAX_VALUE_def)
  then have "snd (call_tool provider_up ''get_forecast'' (Some (JObj [(''city'', JStr [])]))) \<noteq> []"
    by simp
  then have "call_tool provider_up ''get_forecast'' (Some (JObj [(''city'', JStr [])])) \<noteq>
     (Inl (McpError InvalidParams ''Invalid forecast arguments''), [])"
    by (metis snd_conv)
  with v r show ?thesis by simp
qed

text \<open>
  C8, amended: every arguments value accepted by the type guard is an object whose \<open>city\<close>
  field is a string, possibly empty, and call-tool of \<open>get_forecast\<close> issues one request
  whose \<open>q\<close> is that string.
\<close>

theorem accepted_city_is_string:
  assumes "isValidForecastArgs args"
  shows "\<exists>fs s. args = Some (JObj fs) \<and> map_of fs ''city'' = Some (JStr s) \<and>
           map q (snd (call_tool E ''get_forecast'' args)) = [s]"
proof -
  from valid_shape [OF assms] obtain fs s
    where a: "args = Some (JObj fs)" and c: "map_of fs ''city'' = Some (JStr s)"
    by blast
  then have "args_city args = s"
    by (simp add: args_city_def)
  with a c call_tool_requests [OF assms, of E] show ?thesis by simp
qed

theorem accepted_city_is_string_witness:
  "isValidForecastArgs (Some (JObj [(''city'', JStr [])])) \<and>
   map q (snd (call_tool provider_up ''get_forecast'' (Some (JObj [(''city'', JStr [])])))) = [[]]"
proof -
  have v: "isValidForecastArgs (Some (JObj [(''city'', JStr [])]))"
    by (simp add: isValidForecastArgs_def)
  from v accepted_city_is_string [OF v, of provider_up] show ?thesis
    by auto
qed

section \<open>Claims about the day count\<close>

text \<open>
  C3, as stated: the day count of the forecast request is \<open>days\<close> clamped to the interval
  from 1 to 5, and 3 when \<open>days\<close> is absent.  For \<open>days = -1\<close> the handler uses \<open>-1\<close> and
  asks the provider for \<open>-8\<close> entries, where the clamp gives 1.
\<close>

theorem days_below_one_counterexample:
  "isValidForecastArgs (london (Some (Fin (- 1)))) \<and>
   forecast_days (london (Some (Fin (- 1)))) = Fin (- 1) \<and>
   spec_clamped_days (args_days (london (Some (Fin (- 1))))) = Fin 1 \<and>
   forecast_days (london (Some (Fin (- 1)))) \<noteq>
     spec_clamped_days (args_days (london (Some (Fin (- 1))))) \<and>
   map cnt (snd (call_tool provider_up ''get_forecast'' (london (Some (Fin (- 1)))))) =
     [Some (Fin (- 8))]"
proof -
  have d: "args_days (london (Some (Fin (- 1)))) = Some (Fin (- 1))"
    by (simp add: london_def args_days_def)
  have f: "forecast_days (london (Some (Fin (- 1)))) = Fin (- 1)"
    by (simp add: forecast_days_def d)
  show ?thesis
    by (simp add: london_valid call_tool_requests d f MAX_VALUE_def)
qed

text \<open>
  C3, amended: for every validated request the day count is \<open>days\<close> capped at 5 with no
  lower bound, and 3 when \<open>days\<close> is absent, zero or NaN; the forecast request carries
  eight times that count.  (By \<open>capped_days_from_one\<close> this is the clamp of the
  specification whenever \<open>days\<close> is at least 1.)
\<close>

theorem days_capped_above_only:
  assumes "isValidForecastArgs args"
  shows "forecast_days args = capped_days (args_days args) \<and>
         snd (call_tool E ''get_forecast'' args) =
           [\<lparr>url = ''forecast'', appid = API_KEY E, units = ''metric'',
              q = args_city args, cnt = Some (times8 (capped_days (args_days args)))\<rparr>]"
proof -
  have c: "forecast_days args = capped_days (args_days args)"
    by (simp add: forecast_days_def forecast_days_capped)
  with call_tool_requests [OF assms, of E] show ?thesis by simp
qed

theorem days_capped_above_only_witness:
  "isValidForecastArgs (london (Some (Fin 7))) \<and>
   forecast_days (london (Some (Fin 7))) = Fin 5 \<and>
   snd (call_tool provider_up ''get_forecast'' (london (Some (Fin 7)))) =
     [\<lparr>url = ''forecast'', appid = ''key'', units = ''metric'', q = ''London'',
        cnt = Some (Fin 40)\<rparr>]"
proof -
  have d: "args_days (london (Some (Fin 7))) = Some (Fin 7)"
    by (simp add: london_def args_days_def)
  have city: "args_city (london (Some (Fin 7))) = ''London''"
    by (simp add: london_def args_city_def)
  have key: "API_KEY provider_up = ''key''"
    by (simp add: provider_up_def)
  have v: "isValidForecastArgs (london (Some (Fin 7)))"
    by (rule london_valid)
  from v days_capped_above_only [OF v, of provider_up] show ?thesis
    by (simp add: d city key MAX_VALUE_def)
qed

text \<open>
  C9, as stated: a validated request with \<open>days = 0\<close> issues a forecast request with
  \<open>cnt = 0\<close>.  Zero is falsy, so \<open>days || 3\<close> is 3 and the request carries \<open>cnt = 24\<close>.
\<close>

theorem zero_days_counterexample:
  "isValidForecastArgs (london (Some (Fin 0))) \<and>
   map cnt (snd (call_tool provider_up ''get_forecast'' (london (Some (Fin 0))))) =
     [Some (Fin 24)] \<and>
   map cnt (snd (call_tool provider_up ''get_forecast'' (london (Some (Fin 0))))) \<noteq>
     [Some (Fin 0)]"
proof -
  have d: "args_days (london (Some (Fin 0))) = Some (Fin 0)"
    by (simp add: london_def args_days_def)
  show ?thesis
    by (simp add: london_valid call_tool_requests forecast_days_def d MAX_VALUE_def)
qed

text \<open>
  C9, amended: for every validated request whose \<open>days\<close> is 0 the forecast request is
  issued with \<open>cnt = 24\<close>, the count of the default of 3 days.
\<close>

theorem zero_days_uses_default:
  assumes "isValidForecastArgs args"
    and "property args ''days'' = Some (JNum (Fin 0))"
  shows "snd (call_tool E ''get_forecast'' args) =
           [\<lparr>url = ''forecast'', appid = API_KEY E, units = ''metric'',
              q = args_city args, cnt = Some (Fin 24)\<rparr>]"
proof -
  have d: "args_days args = Some (Fin 0)"
    using assms(2) by (simp add: args_days_def)
  show ?thesis
    using call_tool_requests [OF assms(1), of E] by (simp add: forecast_days_def d MAX_VALUE_def)
qed

theorem zero_days_uses_default_witness:
  "isValidForecastArgs (london (Some (Fin 0))) \<and>
   property (london (Some (Fin 0))) ''days'' = Some (JNum (Fin 0)) \<and>
   snd (call_tool provider_up ''get_forecast'' (london (Some (Fin 0)))) =
     [\<lparr>url = ''forecast'', appid = ''key'', units = ''metric'', q = ''London'',
        cnt = Some (Fin 24)\<rparr>]"
proof -
  have v: "isValidForecastArgs (london (Some (Fin 0)))"
    by (rule london_valid)
  have p: "property (london (Some (Fin 0))) ''days'' = Some (JNum (Fin 0))"
    by (simp add: london_def)
  have city: "args_city (london (Some (Fin 0))) = ''London''"
    by (simp add: london_def args_city_def)
  have key: "API_KEY provider_up = ''key''"
    by (simp add: provider_up_def)
  from v p zero_days_uses_default [OF v p, of provider_up] show ?thesis
    by (simp add: city key)
qed

section \<open>Claims about the forecast entries\<close>

text \<open>
  C1: when the provider answers with a list of \<open>8 * d\<close> entries and every entry at an
  index \<open>8 * k\<close> has a non-empty \<open>weather\<close> list, call-tool of \<open>get_forecast\<close> returns
  exactly \<open>d\<close> records in list order; record \<open>k\<close> has the \<open>main.temp\<close> of entry \<open>8 * k\<close>,
  the description of its \<open>weather[0]\<close>, and as date the part of its \<open>dt_txt\<close> before the
  first space, or the date part of the clock reading when \<open>dt_txt\<close> is absent.
\<close>

theorem forecast_one_entry_per_stride:
  assumes "isValidForecastArgs args"
    and "get_forecast E \<lparr>url = ''forecast'', appid = API_KEY E, units = ''metric'',
                           q = args_city args, cnt = Some (times8 (forecast_days args))\<rparr> =
         Resolved lst"
    and "length lst = 8 * d"
    and "\<forall>k<d. weather (lst ! (8 * k)) \<noteq> []"
  shows "fst (call_tool E ''get_forecast'' args) =
           Inr \<lparr>content =
                  [Stringified
                     (map (\<lambda>k. \<lparr>date = (case dt_txt (lst ! (8 * k)) of
                                            Some t \<Rightarrow> takeWhile (\<lambda>c. c \<noteq> CHR '' '') t
                                          | None \<Rightarrow> takeWhile (\<lambda>c. c \<noteq> CHR ''T'') (clock E k)),
                                  day_temperature = main_temp (lst ! (8 * k)),
                                  day_conditions = description (hd (weather (lst ! (8 * k))))\<rparr>)
                        [0 ..< d])],
                isError = False\<rparr>"
proof -
  have all: "\<forall>k. 8 * k < length lst \<longrightarrow> weather (lst ! (8 * k)) \<noteq> []"
    using assms(3,4) by simp
  have n: "(length lst + 7) div 8 = d"
    using assms(3) by simp
  have "sampled_day E lst =
          (\<lambda>k. \<lparr>date = (case dt_txt (lst ! (8 * k)) of
                           Some t \<Rightarrow> takeWhile (\<lambda>c. c \<noteq> CHR '' '') t
                         | None \<Rightarrow> takeWhile (\<lambda>c. c \<noteq> CHR ''T'') (clock E k)),
                 day_temperature = main_temp (lst ! (8 * k)),
                 day_conditions = description (hd (weather (lst ! (8 * k))))\<rparr>)"
    by (rule ext) (simp add: sampled_day_def split_first_def split: option.split)
  with call_tool_resolved [OF assms(1,2) all] n show ?thesis by simp
qed

theorem forecast_one_entry_per_stride_witness:
  "length two_days = 8 * 2 \<and>
   fst (call_tool provider_up ''get_forecast'' (london (Some (Fin 2)))) =
     Inr \<lparr>content =
            [Stringified
               [\<lparr>date = ''2024-05-01'', day_temperature = Fin (43 / 2),
                  day_conditions = ''clear sky''\<rparr>,
                \<lparr>date = ''2024-05-02'', day_temperature = Fin 18,
                  day_conditions = ''light rain''\<rparr>]],
          isError = False\<rparr>"
proof -
  have g: "get_forecast provider_up
             \<lparr>url = ''forecast'', appid = API_KEY provider_up, units = ''metric'',
                q = args_city (london (Some (Fin 2))),
                cnt = Some (times8 (forecast_days (london (Some (Fin 2)))))\<rparr> =
           Resolved two_days"
    by (simp add: provider_up_def)
  have len: "length two_days = 8 * 2"
    by (simp add: two_days_def)
  have ne: "\<forall>k<2. weather (two_days ! (8 * k)) \<noteq> []"
    by (simp add: less_2_cases_iff two_days_nth slot_def)
  have up: "[0 ..< 2] = [0, Suc 0]"
    by (simp add: upt_rec)
  from forecast_one_entry_per_stride [OF london_valid g len ne] len show ?thesis
    by (simp add: up two_days_nth slot_def)
qed

text \<open>
  C10: when the provider answers with a list of \<open>n\<close> entries (every sampled one with a
  non-empty \<open>weather\<close> list), call-tool of \<open>get_forecast\<close> returns the ceiling of \<open>n / 8\<close>
  records, whatever day count was requested.
\<close>

theorem forecast_count_from_response_length:
  assumes "isValidForecastArgs args"
    and "get_forecast E \<lparr>url = ''forecast'', appid = API_KEY E, units = ''metric'',
                           q = args_city args, cnt = Some (times8 (forecast_days args))\<rparr> =
         Resolved lst"
    and "\<forall>k. 8 * k < length lst \<longrightarrow> weather (lst ! (8 * k)) \<noteq> []"
  shows "\<exists>fs. fst (call_tool E ''get_forecast'' args) =
                 Inr \<lparr>content = [Stringified fs], isError = False\<rparr> \<and>
              int (length fs) = \<lceil>real (length lst) / 8\<rceil>"
proof -
  have "int (length (map (sampled_day E lst) [0 ..< (length lst + 7) div 8])) =
        \<lceil>real (length lst) / 8\<rceil>"
    by (simp add: ceiling_eighth)
  with call_tool_resolved [OF assms] show ?thesis by blast
qed

theorem forecast_count_from_response_length_witness:
  "isValidForecastArgs (london (Some (Fin 1))) \<and>
   length twenty_slots = 20 \<and>
   (\<exists>fs. fst (call_tool provider_twenty ''get_forecast'' (london (Some (Fin 1)))) =
            Inr \<lparr>content = [Stringified fs], isError = False\<rparr> \<and>
         int (length fs) = 3)"
proof -
  have g: "get_forecast provider_twenty
             \<lparr>url = ''forecast'', appid = API_KEY provider_twenty, units = ''metric'',
                q = args_city (london (Some (Fin 1))),
                cnt = Some (times8 (forecast_days (london (Some (Fin 1)))))\<rparr> =
           Resolved twenty_slots"
    by (simp add: provider_twenty_def)
  have len: "length twenty_slots = 20"
    by (simp add: twenty_slots_def two_days_def)
  have ne: "\<forall>k. 8 * k < length twenty_slots \<longrightarrow> weather (twenty_slots ! (8 * k)) \<noteq> []"
  proof (intro allI impI)
    fix k assume "8 * k < length twenty_slots"
    with len have k: "k < 3" by simp
    then show "weather (twenty_slots ! (8 * k)) \<noteq> []"
      unfolding twenty_slots_nth [OF k]
      by (auto simp add: less_Suc_eq numeral_3_eq_3 slot_def)
  qed
  have c: "\<lceil>real (length twenty_slots) / 8\<rceil> = 3"
    unfolding len by (simp add: ceiling_eighth)
  from forecast_count_from_response_length [OF london_valid g ne] len london_valid
  show ?thesis
    unfolding c by simp
qed

text \<open>
  C6, as stated: the dates within one successful response are pairwise distinct.  The
  type of a provider entry lets \<open>dt_txt\<close> be absent; then every record gets the date of
  the clock, and two records carry the same date.
\<close>

theorem forecast_dates_repeat_counterexample:
  "fst (call_tool provider_undated ''get_forecast'' (london (Some (Fin 2)))) =
     Inr \<lparr>content =
            [Stringified
               [\<lparr>date = ''2024-05-01'', day_temperature = Fin (43 / 2),
                  day_conditions = ''clear sky''\<rparr>,
                \<lparr>date = ''2024-05-01'', day_temperature = Fin 18,
                  day_conditions = ''light rain''\<rparr>]],
          isError = False\<rparr> \<and>
   \<not> distinct
       (map date
          [\<lparr>date = ''2024-05-01'', day_temperature = Fin (43 / 2),
             day_conditions = ''clear sky''\<rparr>,
           \<lparr>date = ''2024-05-01'', day_temperature = Fin 18,
             day_conditions = ''light rain''\<rparr>])"
proof -
  have g: "get_forecast provider_undated
             \<lparr>url = ''forecast'', appid = API_KEY provider_undated, units = ''metric'',
                q = args_city (london (Some (Fin 2))),
                cnt = Some (times8 (forecast_days (london (Some (Fin 2)))))\<rparr> =
           Resolved undated_days"
    by (simp add: provider_undated_def)
  have len: "length undated_days = 16"
    by (simp add: undated_days_def)
  have ne: "\<forall>k. 8 * k < length undated_days \<longrightarrow> weather (undated_days ! (8 * k)) \<noteq> []"
  proof (intro allI impI)
    fix k assume "8 * k < length undated_days"
    with len have "k = 0 \<or> k = 1" by auto
    then show "weather (undated_days ! (8 * k)) \<noteq> []"
      by (auto simp add: undated_days_nth slot_def)
  qed
  have up: "[0 ..< 2] = [0, Suc 0]"
    by (simp add: upt_rec)
  have clk: "clock provider_undated = (\<lambda>k. ''2024-05-01T09:30:00.000Z'')"
    by (simp add: provider_undated_def provider_up_def)
  from call_tool_resolved [OF london_valid g ne] show ?thesis
    by (simp add: len up sampled_day_def undated_days_nth slot_def clk split_first_def)
qed

text \<open>
  C6, amended: the dates within one successful response are pairwise distinct exactly
  when the date parts of the sampled provider entries (\<open>dt_txt\<close> before the first space,
  the date of the clock where \<open>dt_txt\<close> is absent) are pairwise distinct.
\<close>

theorem forecast_dates_follow_provider:
  assumes "isValidForecastArgs args"
    and "get_forecast E \<lparr>url = ''forecast'', appid = API_KEY E, units = ''metric'',
                           q = args_city args, cnt = Some (times8 (forecast_days args))\<rparr> =
         Resolved lst"
    and "\<forall>k. 8 * k < length lst \<longrightarrow> weather (lst ! (8 * k)) \<noteq> []"
  shows "\<exists>fs. fst (call_tool E ''get_forecast'' args) =
                 Inr \<lparr>content = [Stringified fs], isError = False\<rparr> \<and>
              (distinct (map date fs) \<longleftrightarrow>
               distinct
                 (map (\<lambda>k. case dt_txt (lst ! (8 * k)) of
                              Some t \<Rightarrow> takeWhile (\<lambda>c. c \<noteq> CHR '' '') t
                            | None \<Rightarrow> takeWhile (\<lambda>c. c \<noteq> CHR ''T'') (clock E k))
                    [0 ..< (length lst + 7) div 8]))"
proof -
  have "date \<circ> sampled_day E lst =
          (\<lambda>k. case dt_txt (lst ! (8 * k)) of
                  Some t \<Rightarrow> takeWhile (\<lambda>c. c \<noteq> CHR '' '') t
                | None \<Rightarrow> takeWhile (\<lambda>c. c \<noteq> CHR ''T'') (clock E k))"
    by (rule ext) (simp add: sampled_day_def split_first_def split: option.split)
  then have "map date (map (sampled_day E lst) [0 ..< (length lst + 7) div 8]) =
             map (\<lambda>k. case dt_txt (lst ! (8 * k)) of
                          Some t \<Rightarrow> takeWhile (\<lambda>c. c \<noteq> CHR '' '') t
                        | None \<Rightarrow> takeWhile (\<lambda>c. c \<noteq> CHR ''T'') (clock E k))
                 [0 ..< (length lst + 7) div 8]"
    by (simp only: map_map)
  with call_tool_resolved [OF assms] show ?thesis by metis
qed

theorem forecast_dates_follow_provider_witness:
  "\<exists>fs. fst (call_tool provider_up ''get_forecast'' (london None)) =
           Inr \<lparr>content = [Stringified fs], isError = False\<rparr> \<and>
        distinct (map date fs)"
proof -
  have g: "get_forecast provider_up
             \<lparr>url = ''forecast'', appid = API_KEY provider_up, units = ''metric'',
                q = args_city (london None),
                cnt = Some (times8 (forecast_days (london None)))\<rparr> =
           Resolved two_days"
    by (simp add: provider_up_def)
  have len: "length two_days = 16"
    by (simp add: two_days_def)
  have ne: "\<forall>k. 8 * k < length two_days \<longrightarrow> weather (two_days ! (8 * k)) \<noteq> []"
  proof (intro allI impI)
    fix k assume "8 * k < length two_days"
    with len have "k = 0 \<or> k = 1" by auto
    then show "weather (two_days ! (8 * k)) \<noteq> []"
      by (auto simp add: two_days_nth slot_def)
  qed
  have up: "[0 ..< 2] = [0, Suc 0]"
    by (simp add: upt_rec)
  from forecast_dates_follow_provider [OF london_valid g ne] show ?thesis
    by (simp add: len up two_days_nth slot_def)
qed

section \<open>Claims about provider failures\<close>

text \<open>
  C2: when the provider call fails with an axios error, read-resource throws a provider
  error and call-tool returns a payload flagged as an error, both with the provider's
  message or else the transport message.  This holds for every error body other than
  \<open>null\<close> (\<open>provider_error_read\<close>, \<open>provider_error_tool\<close>).  For an error response whose
  body is JSON \<open>null\<close>, reading \<open>message\<close> throws inside the catch block, and both handlers
  throw a TypeError.
\<close>

theorem null_error_body_is_thrown:
  "call_tool provider_null_body ''get_forecast'' (london None) =
     (Inl TypeError,
      [\<lparr>url = ''forecast'', appid = ''key'', units = ''metric'', q = ''London'',
         cnt = Some (Fin 24)\<rparr>]) \<and>
   read_resource provider_null_body ''weather://San Francisco/current'' =
     (Inl TypeError,
      [\<lparr>url = ''weather'', appid = ''key'', units = ''metric'', q = ''San Francisco'',
         cnt = None\<rparr>])"
proof -
  have d: "args_days (london None) = None"
    by (simp add: london_def args_days_def)
  have city: "args_city (london None) = ''London''"
    by (simp add: london_def args_city_def)
  have tool: "call_tool provider_null_body ''get_forecast'' (london None) =
     (Inl TypeError,
      [\<lparr>url = ''forecast'', appid = ''key'', units = ''metric'', q = ''London'',
         cnt = Some (Fin 24)\<rparr>])"
    unfolding call_tool_valid [OF london_valid]
    by (simp add: provider_null_body_def provider_up_def null_body_def tool_catch_def
        forecast_days_def d city MAX_VALUE_def)
  have read: "read_resource provider_null_body ''weather://San Francisco/current'' =
     (Inl TypeError,
      [\<lparr>url = ''weather'', appid = ''key'', units = ''metric'', q = ''San Francisco'',
         cnt = None\<rparr>])"
    by (simp add: read_resource_def DEFAULT_CITY_def CURRENT_def provider_null_body_def
        provider_up_def null_body_def read_catch_def)
  from tool read show ?thesis by simp
qed

end
